theory Spec2Isabelle
  imports Main "HOL-Library.AList" "HOL-Library.Sublist"
begin

section \<open>The request-handling layer of the open-data catalogue (core/views.py)\<close>

subsection \<open>Exceptions\<close>

text \<open>
  The exceptions that the modelled code can raise and does not catch. A function that
  can raise returns \<open>error + 'a\<close>, with \<open>Inl\<close> for the exception.
\<close>

datatype error = AttributeError | KeyError | IndexError

subsection \<open>Fields and rows\<close>

text \<open>
  A \<open>Field\<close> descriptor, with the three attributes that \<open>queryset_to_csv\<close> reads.
\<close>

record field =
  name :: string
  show_on_frontend :: bool
  obfuscate :: bool

text \<open>
  A row is an object whose attributes are read by name: \<open>getattr(row, field.name)\<close>
  raises \<open>AttributeError\<close> when the row has no such attribute. The values are of
  an arbitrary type \<open>'v\<close>.
\<close>

type_synonym 'v row = "string \<rightharpoonup> 'v"

definition getattr :: "'v row \<Rightarrow> string \<Rightarrow> error + 'v" where
  "getattr row n = (case row n of None \<Rightarrow> Inl AttributeError | Some v \<Rightarrow> Inr v)"

subsection \<open>The CSV encoder: \<open>queryset_to_csv\<close>\<close>

text \<open>
  \<open>row_data\<close> is a Python dict: insertion-ordered, and an assignment to a key that is
  already present replaces the value where the key stands. That is \<open>AList.update\<close> on
  an association list. The transform \<open>obfuscate(value)\<close> is imported from
  \<open>core.templatetags.utils\<close> and is a parameter here (\<open>obf\<close>).

  The inner loop, \<open>for field in fields\<close>, with the dict built so far:
\<close>

fun row_data_loop ::
  "('v \<Rightarrow> 'v) \<Rightarrow> 'v row \<Rightarrow> field list \<Rightarrow> (string \<times> 'v) list \<Rightarrow> error + (string \<times> 'v) list"
where
  "row_data_loop obf row [] row_data = Inr row_data"
| "row_data_loop obf row (f # fs) row_data =
     (if \<not> show_on_frontend f \<or> name f = ''search_data''
      then row_data_loop obf row fs row_data
      else (case getattr row (name f) of
              Inl e \<Rightarrow> Inl e
            | Inr v \<Rightarrow>
                row_data_loop obf row fs
                  (AList.update (name f) (if obfuscate f then obf v else v) row_data)))"

text \<open>
  The list comprehension \<open>[row_data[field] for field in header]\<close>; a missing key
  raises \<open>KeyError\<close>.
\<close>

fun lookup_all :: "(string \<times> 'v) list \<Rightarrow> string list \<Rightarrow> error + 'v list" where
  "lookup_all row_data [] = Inr []"
| "lookup_all row_data (h # hs) =
     (case map_of row_data h of
        None \<Rightarrow> Inl KeyError
      | Some v \<Rightarrow> (case lookup_all row_data hs of Inl e \<Rightarrow> Inl e | Inr vs \<Rightarrow> Inr (v # vs)))"

text \<open>
  The generator yields lists: the header is a list of field names, a data row a list of
  values. A generator is modelled by what it yields, in order, and the exception that
  ends it, if any.
\<close>

datatype 'v csv_row = Header "string list" | Values "'v list"

type_synonym 'v generated = "'v csv_row list \<times> error option"

text \<open>
  The outer loop, \<open>for row in data.iterator()\<close>, with the variable \<open>header\<close>
  (\<open>None\<close> until the first row has been projected) as loop state.
\<close>

fun csv_loop ::
  "('v \<Rightarrow> 'v) \<Rightarrow> field list \<Rightarrow> string list option \<Rightarrow> 'v row list \<Rightarrow> 'v generated"
where
  "csv_loop obf flds header [] = ([], None)"
| "csv_loop obf flds header (row # rows) =
     (case row_data_loop obf row flds [] of
        Inl e \<Rightarrow> ([], Some e)
      | Inr row_data \<Rightarrow>
          (let (header', first) =
                 (case header of
                    None \<Rightarrow> (map fst row_data, [Header (map fst row_data)])
                  | Some h \<Rightarrow> (h, []))
           in (case lookup_all row_data header' of
                 Inl e \<Rightarrow> (first, Some e)
               | Inr vs \<Rightarrow>
                   (let (rest, raised) = csv_loop obf flds (Some header') rows
                    in (first @ Values vs # rest, raised)))))"

definition queryset_to_csv :: "('v \<Rightarrow> 'v) \<Rightarrow> 'v row list \<Rightarrow> field list \<Rightarrow> 'v generated" where
  "queryset_to_csv obf data flds = csv_loop obf flds None data"

text \<open>The fields that the encoder does not skip.\<close>

definition visible :: "field \<Rightarrow> bool" where
  "visible f \<longleftrightarrow> show_on_frontend f \<and> name f \<noteq> ''search_data''"

text \<open>The value that the encoder stores for a field of a row that has the attribute.\<close>

definition cell :: "('v \<Rightarrow> 'v) \<Rightarrow> 'v row \<Rightarrow> field \<Rightarrow> 'v" where
  "cell obf row f = (if obfuscate f then obf (the (row (name f))) else the (row (name f)))"

definition has_attrs :: "field list \<Rightarrow> 'v row \<Rightarrow> bool" where
  "has_attrs flds row \<longleftrightarrow> (\<forall>f \<in> set flds. visible f \<longrightarrow> row (name f) \<noteq> None)"

subsection \<open>Settings, entities and requests\<close>

text \<open>The values of \<open>django.conf.settings\<close> that the view reads.\<close>

record settings =
  ROWS_PER_PAGE :: int
  CSV_EXPORT_MAX_ROWS :: int
  BLOCKED_AGENTS :: "string list"

text \<open>
  \<open>Dataset\<close> and \<open>Table\<close> are defined in \<open>core.models\<close>; a record holds what the
  view reads from the entity: \<open>table.name\<close> and \<open>table.fields\<close>; \<open>dataset.slug\<close>,
  \<open>dataset.get_default_table().name\<close>, \<open>dataset.files_url\<close> and
  \<open>dataset.version_set.order_by("-order").first()\<close>.
\<close>

type_synonym version = string

record table =
  table_name :: string
  table_fields :: "field list"

record dataset =
  dataset_slug :: string
  default_table_name :: string
  files_url :: string
  latest_version :: "version option"

text \<open>
  \<open>request.GET\<close> is a \<open>QueryDict\<close>: a dict from a key to the list of the values
  given for it, in query-string order.
\<close>

type_synonym querydict = "(string \<times> string list) list"

record request =
  GET :: querydict
  is_superuser :: bool
  User_Agent :: "string option"

subsection \<open>What the view calls and does not define\<close>

text \<open>
  The collaborators of the view are parameters, collected in one record:
  \<^item> \<open>get_dataset\<close> is \<open>Dataset.objects.get(slug=slug)\<close>, \<open>None\<close> for
    \<open>Dataset.DoesNotExist\<close>;
  \<^item> \<open>get_table\<close> is \<open>dataset.get_table(tablename, allow_hidden=...)\<close>, \<open>None\<close> for
    \<open>Table.DoesNotExist\<close>;
  \<^item> \<open>parse_querystring\<close> and \<open>composed_query\<close> are the methods of
    \<open>table.get_model().objects\<close>; the row source is the list of its rows, and its
    \<open>count()\<close> their number;
  \<^item> \<open>query_bool\<close> and \<open>search_bool\<close> are Python's truth value of the filter
    expression and of the search expression, whose types the view does not fix;
  \<^item> \<open>obfuscate_value\<close> is \<open>core.templatetags.utils.obfuscate\<close>;
  \<^item> \<open>int_of\<close> is Python's \<open>int(s)\<close>, \<open>None\<close> for \<open>ValueError\<close>; \<open>str_of\<close> is
    \<open>str(n)\<close>; \<open>strip\<close> and \<open>lower\<close> are \<open>s.strip()\<close> and \<open>s.lower()\<close>;
  \<^item> \<open>uuid4_hex\<close> is the value of \<open>uuid.uuid4().hex\<close> drawn for the request;
  \<^item> \<open>writerow\<close> is \<open>csv.writer(Echo(), dialect=csv.excel).writerow\<close>, which returns
    the encoded line.
\<close>

record ('v, 'q, 's, 'o) env =
  settings :: settings
  get_dataset :: "string \<Rightarrow> dataset option"
  get_table :: "dataset \<Rightarrow> string \<Rightarrow> bool \<Rightarrow> table option"
  parse_querystring :: "table \<Rightarrow> querydict \<Rightarrow> 'q \<times> 's \<times> 'o"
  composed_query :: "table \<Rightarrow> 'q \<Rightarrow> 's \<Rightarrow> 'o \<Rightarrow> 'v row list"
  query_bool :: "'q \<Rightarrow> bool"
  search_bool :: "'s \<Rightarrow> bool"
  obfuscate_value :: "'v \<Rightarrow> 'v"
  int_of :: "string \<Rightarrow> int option"
  str_of :: "int \<Rightarrow> string"
  strip :: "string \<Rightarrow> string"
  lower :: "string \<Rightarrow> string"
  uuid4_hex :: string
  writerow :: "'v csv_row \<Rightarrow> string"

subsection \<open>Responses\<close>

text \<open>
  \<open>Paginator(all_data, items_per_page).get_page(page)\<close> is Django's; the model keeps
  the three arguments.
\<close>

record 'v page =
  object_list :: "'v row list"
  per_page :: int
  number :: int

text \<open>
  The context of \<open>core/dataset-detail.html\<close>. Its entry \<open>querystring\<close> is
  \<open>query_dict\<close> url-encoded by Django and is not kept apart.
\<close>

record 'v detail =
  ctx_data :: "'v page"
  ctx_dataset :: dataset
  ctx_fields :: "field list"
  ctx_max_export_rows :: int
  ctx_query_dict :: querydict
  ctx_slug :: string
  ctx_table :: table
  ctx_total_count :: int
  ctx_version :: "version option"

text \<open>A template context is a dict of strings, or the context of the detail page.\<close>

datatype 'v template_context = Strings "(string \<times> string) list" | Detail "'v detail"

text \<open>
  \<open>render(request, template, context, status=...)\<close>, \<open>redirect(url)\<close>, and the
  streaming response with the lines of its body, the exception that ends the stream if
  there is one, its content type and its \<open>Content-Disposition\<close> header.
\<close>

datatype 'v response =
    Render string "'v template_context" int
  | Redirect string
  | StreamingHttpResponse "string list" "error option" string string

text \<open>
  The view returns a response or raises; with it goes the list of the status codes that
  it passed to \<open>log_blocked_request\<close>.
\<close>

type_synonym 'v outcome = "int list \<times> (error + 'v response)"

subsection \<open>The view \<open>dataset_detail\<close>\<close>

text \<open>
  Modelled from the spec: the URL configuration is not part of the sources; the route
  \<open>core:dataset-table-detail\<close> is \<open>/dataset/<slug>/<tablename>\<close>.
\<close>

definition reverse_dataset_table_detail :: "string \<Rightarrow> string \<Rightarrow> string" where
  "reverse_dataset_table_detail slug tablename = ''/dataset/'' @ slug @ ''/'' @ tablename"

text \<open>
  \<open>querystring.pop(key, default)\<close>: the list of values of the key, which is removed, or
  the default.
\<close>

definition pop :: "querydict \<Rightarrow> string \<Rightarrow> string list \<Rightarrow> string list \<times> querydict" where
  "pop querystring key dflt =
     (case map_of querystring key of
        None \<Rightarrow> (dflt, querystring)
      | Some vs \<Rightarrow> (vs, AList.delete key querystring))"

text \<open>\<open>values[0].strip() or default\<close>; the subscript raises on an empty list.\<close>

definition first_stripped_or ::
  "(string \<Rightarrow> string) \<Rightarrow> string list \<Rightarrow> string \<Rightarrow> error + string"
where
  "first_stripped_or strp vs dflt =
     (case vs of
        [] \<Rightarrow> Inl IndexError
      | v # _ \<Rightarrow> Inr (if strp v = [] then dflt else strp v))"

text \<open>
  Lines 148 to 173: the export guards, and the streamed CSV. \<open>agent.lower() in
  user_agent.lower()\<close> is the substring test.
\<close>

definition csv_response ::
  "('v, 'q, 's, 'o) env \<Rightarrow> request \<Rightarrow> string \<Rightarrow> dataset \<Rightarrow> field list \<Rightarrow> 'q \<Rightarrow> 's \<Rightarrow>
   'v row list \<Rightarrow> 'v response"
where
  "csv_response env request slug dataset flds query search_query all_data =
     (let user_agent = (case User_Agent request of None \<Rightarrow> [] | Some ua \<Rightarrow> ua);
          block_agent =
            list_ex (\<lambda>agent. sublist (lower env agent) (lower env user_agent))
              (BLOCKED_AGENTS (settings env))
      in if \<not> (query_bool env query \<or> search_bool env search_query)
            \<or> user_agent = [] \<or> block_agent
         then Render ''4xx.html''
                (Strings [(''html_code_snippet'', ''core/400-csv-without-filters.html''),
                          (''download_url'', files_url dataset)]) 400
         else if int (length all_data) > CSV_EXPORT_MAX_ROWS (settings env)
         then Render ''4xx.html''
                (Strings [(''message'', ''Max rows exceeded.''),
                          (''title_4xx'', ''Oops! Ocorreu um erro:'')]) 400
         else (let filename = slug @ ''-'' @ uuid4_hex env @ ''.csv'';
                   (csv_rows, raised) = queryset_to_csv (obfuscate_value env) all_data flds
               in StreamingHttpResponse (map (writerow env) csv_rows) raised
                    ''text/csv;charset=UTF-8''
                    (''attachment; filename='' @ [CHR 0x22] @ filename @ [CHR 0x22])))"

text \<open>
  Lines 175 to 195: the paginated page. A key is deleted from the query dict when its
  value, the last of its list, is empty.
\<close>

definition page_response ::
  "('v, 'q, 's, 'o) env \<Rightarrow> string \<Rightarrow> dataset \<Rightarrow> table \<Rightarrow> querydict \<Rightarrow> int \<Rightarrow> int \<Rightarrow>
   'v row list \<Rightarrow> 'v response"
where
  "page_response env slug dataset tbl querystring page items_per_page all_data =
     Render ''core/dataset-detail.html''
       (Detail \<lparr>ctx_data = \<lparr>object_list = all_data, per_page = items_per_page, number = page\<rparr>,
                ctx_dataset = dataset,
                ctx_fields = table_fields tbl,
                ctx_max_export_rows = CSV_EXPORT_MAX_ROWS (settings env),
                ctx_query_dict =
                  filter (\<lambda>(key, vs). vs \<noteq> [] \<and> last vs \<noteq> []) querystring,
                ctx_slug = slug,
                ctx_table = tbl,
                ctx_total_count = int (length all_data),
                ctx_version = latest_version dataset\<rparr>) 200"

text \<open>Lines 124 to 147: the control parameters, and the choice of the response.\<close>

definition table_view ::
  "('v, 'q, 's, 'o) env \<Rightarrow> request \<Rightarrow> string \<Rightarrow> dataset \<Rightarrow> table \<Rightarrow> error + 'v response"
where
  "table_view env request slug dataset tbl =
     (let querystring = GET request;
          rows_per_page = str_of env (ROWS_PER_PAGE (settings env));
          (page_values, querystring) = pop querystring ''page'' [''1'']
      in case first_stripped_or (strip env) page_values ''1'' of
           Inl e \<Rightarrow> Inl e
         | Inr page_number \<Rightarrow>
      (let (items_values, querystring) = pop querystring ''items'' [rows_per_page]
       in case first_stripped_or (strip env) items_values rows_per_page of
            Inl e \<Rightarrow> Inl e
          | Inr items_per_page \<Rightarrow>
      (let (format_values, querystring) = pop querystring ''format'' [''''];
           download_csv = (format_values = [''csv''])
       in case int_of env page_number of
            None \<Rightarrow> Inr (Render ''404.html'' (Strings [(''message'', ''Invalid page number.'')]) 404)
          | Some page \<Rightarrow>
         (case int_of env items_per_page of
            None \<Rightarrow>
              Inr (Render ''404.html'' (Strings [(''message'', ''Invalid items per page.'')]) 404)
          | Some items \<Rightarrow>
              (let items_per_page = min items 1000;
                   (query, search_query, order_by) = parse_querystring env tbl querystring;
                   all_data = composed_query env tbl query search_query order_by
               in if download_csv
                  then Inr (csv_response env request slug dataset (table_fields tbl)
                              query search_query all_data)
                  else Inr (page_response env slug dataset tbl querystring page
                              items_per_page all_data))))))"

text \<open>
  Lines 99 to 122: the dataset, the redirect to the default table, and the table. A
  \<open>Table\<close> object is true, so \<open>if hidden_table\<close> holds whenever the second lookup
  returns.
\<close>

definition dataset_detail ::
  "('v, 'q, 's, 'o) env \<Rightarrow> request \<Rightarrow> string \<Rightarrow> string \<Rightarrow> 'v outcome"
where
  "dataset_detail env request slug tablename =
     (case get_dataset env slug of
        None \<Rightarrow> ([], Inr (Render ''404.html'' (Strings [(''message'', ''Dataset does not exist'')]) 404))
      | Some dataset \<Rightarrow>
          if tablename = []
          then ([], Inr (Redirect (reverse_dataset_table_detail slug (default_table_name dataset))))
          else (case get_table env dataset tablename (is_superuser request) of
                  None \<Rightarrow>
                    ((case get_table env dataset tablename True of
                        Some hidden_table \<Rightarrow> [404]
                      | None \<Rightarrow> []),
                     Inr (Render ''404.html'' (Strings [(''message'', ''Table does not exist'')]) 404))
                | Some tbl \<Rightarrow> ([], table_view env request slug dataset tbl)))"

subsection \<open>The control parameters as the view reads them\<close>

text \<open>
  The three \<open>pop\<close> calls read different keys, so each reads what \<open>request.GET\<close>
  holds for its key; the query dict that is left has lost the three keys.
\<close>

definition values_of :: "querydict \<Rightarrow> string \<Rightarrow> string list \<Rightarrow> string list" where
  "values_of querystring key dflt =
     (case map_of querystring key of None \<Rightarrow> dflt | Some vs \<Rightarrow> vs)"

definition page_number :: "('v, 'q, 's, 'o) env \<Rightarrow> request \<Rightarrow> error + string" where
  "page_number env request =
     first_stripped_or (strip env) (values_of (GET request) ''page'' [''1'']) ''1''"

definition items_per_page :: "('v, 'q, 's, 'o) env \<Rightarrow> request \<Rightarrow> error + string" where
  "items_per_page env request =
     first_stripped_or (strip env)
       (values_of (GET request) ''items'' [str_of env (ROWS_PER_PAGE (settings env))])
       (str_of env (ROWS_PER_PAGE (settings env)))"

definition format_values :: "request \<Rightarrow> string list" where
  "format_values request = values_of (GET request) ''format'' ['''']"

definition filter_params :: "request \<Rightarrow> querydict" where
  "filter_params request =
     AList.delete ''format'' (AList.delete ''items'' (AList.delete ''page'' (GET request)))"

text \<open>
  A \<open>QueryDict\<close> that Django has parsed from a query string holds at least one value
  for each of its keys.
\<close>

definition well_formed :: "querydict \<Rightarrow> bool" where
  "well_formed querystring \<longleftrightarrow> list_all (\<lambda>(key, vs). vs \<noteq> []) querystring"

text \<open>The status code of a response.\<close>

fun status_code :: "'v response \<Rightarrow> int" where
  "status_code (Render template ctx status) = status"
| "status_code (Redirect url) = 302"
| "status_code (StreamingHttpResponse body raised content_type disposition) = 200"

text \<open>
  The two ways out of the response choice: the CSV export path, which ends in one of
  the two error pages of \<open>4xx.html\<close> or in the stream, and the paginated page.
\<close>

fun export_path :: "'v response \<Rightarrow> bool" where
  "export_path (Render template ctx status) = (template = ''4xx.html'')"
| "export_path (Redirect url) = False"
| "export_path (StreamingHttpResponse body raised content_type disposition) = True"

fun paginated_page :: "'v response \<Rightarrow> bool" where
  "paginated_page (Render template ctx status) = (template = ''core/dataset-detail.html'')"
| "paginated_page (Redirect url) = False"
| "paginated_page (StreamingHttpResponse body raised content_type disposition) = False"

subsection \<open>An example installation\<close>

text \<open>
  The table of the specification's example scenario: a shown field, a shown and
  obfuscated field, a field that is not shown, and the search-index field.
\<close>

definition example_fields :: "field list" where
  "example_fields =
     [\<lparr>name = ''city'', show_on_frontend = True, obfuscate = False\<rparr>,
      \<lparr>name = ''document'', show_on_frontend = True, obfuscate = True\<rparr>,
      \<lparr>name = ''notes'', show_on_frontend = False, obfuscate = False\<rparr>,
      \<lparr>name = ''search_data'', show_on_frontend = True, obfuscate = False\<rparr>]"

definition example_row :: "string row" where
  "example_row = [''city'' \<mapsto> ''SaoPaulo'', ''document'' \<mapsto> ''12345678900'',
                  ''search_data'' \<mapsto> ''saopaulo'']"

definition example_obfuscate :: "string \<Rightarrow> string" where
  "example_obfuscate v = ''***'' @ drop 3 v"

text \<open>
  Executable stand-ins for the parameters, for ASCII strings: lower-casing, stripping
  of blanks, decimal literals with an optional sign, as \<open>int\<close> reads a stripped string, and
  decimal printing.
\<close>

definition ascii_lower :: "string \<Rightarrow> string" where
  "ascii_lower s =
     map (\<lambda>c. let n = (of_char c :: nat) in if 65 \<le> n \<and> n \<le> 90 then char_of (n + 32) else c) s"

definition ascii_space :: "char \<Rightarrow> bool" where
  "ascii_space c \<longleftrightarrow> c = CHR '' '' \<or> (9 \<le> (of_char c :: nat) \<and> (of_char c :: nat) \<le> 13)"

definition ascii_strip :: "string \<Rightarrow> string" where
  "ascii_strip s = rev (dropWhile ascii_space (rev (dropWhile ascii_space s)))"

fun digits_value :: "nat \<Rightarrow> string \<Rightarrow> nat option" where
  "digits_value acc [] = Some acc"
| "digits_value acc (c # cs) =
     (let n = (of_char c :: nat)
      in if 48 \<le> n \<and> n \<le> 57 then digits_value (10 * acc + (n - 48)) cs else None)"

definition ascii_int :: "string \<Rightarrow> int option" where
  "ascii_int s =
     (case s of
        [] \<Rightarrow> None
      | c # cs \<Rightarrow>
          if c = CHR ''-'' then (if cs = [] then None
                                 else map_option (\<lambda>n. - int n) (digits_value 0 cs))
          else if c = CHR ''+'' then (if cs = [] then None
                                      else map_option int (digits_value 0 cs))
          else map_option int (digits_value 0 s))"

fun digits_of :: "nat \<Rightarrow> nat \<Rightarrow> string" where
  "digits_of 0 n = []"
| "digits_of (Suc fuel) n =
     (if n < 10 then [char_of (48 + n)]
      else digits_of fuel (n div 10) @ [char_of (48 + n mod 10)])"

definition ascii_str :: "int \<Rightarrow> string" where
  "ascii_str i =
     (if i < 0 then CHR ''-'' # digits_of (Suc (nat (- i))) (nat (- i))
      else digits_of (Suc (nat i)) (nat i))"

fun join_comma :: "string list \<Rightarrow> string" where
  "join_comma [] = []"
| "join_comma [x] = x"
| "join_comma (x # y # ys) = x @ '','' @ join_comma (y # ys)"

definition example_writerow :: "string csv_row \<Rightarrow> string" where
  "example_writerow r =
     (case r of Header hs \<Rightarrow> join_comma hs | Values vs \<Rightarrow> join_comma vs) @ [CHR 0x0D, CHR 0x0A]"

definition example_settings :: settings where
  "example_settings =
     \<lparr>ROWS_PER_PAGE = 50, CSV_EXPORT_MAX_ROWS = 2, BLOCKED_AGENTS = [''Wget'', ''curl'']\<rparr>"

definition example_table :: table where
  "example_table = \<lparr>table_name = ''caso'', table_fields = example_fields\<rparr>"

definition example_hidden_table :: table where
  "example_hidden_table = \<lparr>table_name = ''interno'', table_fields = example_fields\<rparr>"

definition example_dataset :: dataset where
  "example_dataset =
     \<lparr>dataset_slug = ''covid19'', default_table_name = ''caso'',
      files_url = ''/dataset/covid19/files/'', latest_version = None\<rparr>"

definition example_rows :: "string row list" where
  "example_rows =
     [example_row,
      [''city'' \<mapsto> ''SaoPaulo'', ''document'' \<mapsto> ''98765432100'', ''search_data'' \<mapsto> ''saopaulo''],
      [''city'' \<mapsto> ''Recife'', ''document'' \<mapsto> ''11122233344'', ''search_data'' \<mapsto> ''recife'']]"

text \<open>
  The example query layer: every key with a non-empty value but \<open>search\<close> is an
  equality filter, \<open>search\<close> is the search expression, and the row source is the rows
  that match every filter.
\<close>

definition example_parse_querystring ::
  "table \<Rightarrow> querydict \<Rightarrow> (string \<times> string) list \<times> string \<times> string list"
where
  "example_parse_querystring tbl querystring =
     (map (\<lambda>(key, vs). (key, last vs))
        (filter (\<lambda>(key, vs). key \<noteq> ''search'' \<and> vs \<noteq> [] \<and> last vs \<noteq> []) querystring),
      (case map_of querystring ''search'' of Some (v # vs) \<Rightarrow> v | _ \<Rightarrow> []),
      [])"

definition example_composed_query ::
  "table \<Rightarrow> (string \<times> string) list \<Rightarrow> string \<Rightarrow> string list \<Rightarrow> string row list"
where
  "example_composed_query tbl query search_query order_by =
     filter (\<lambda>row. list_all (\<lambda>(key, v). row key = Some v) query) example_rows"

definition example_env :: "(string, (string \<times> string) list, string, string list) env" where
  "example_env =
     \<lparr>settings = example_settings,
      get_dataset = (\<lambda>slug. if slug = ''covid19'' then Some example_dataset else None),
      get_table = (\<lambda>dataset tablename allow_hidden.
         if tablename = ''caso'' then Some example_table
         else if tablename = ''interno'' \<and> allow_hidden then Some example_hidden_table
         else None),
      parse_querystring = example_parse_querystring,
      composed_query = example_composed_query,
      query_bool = (\<lambda>query. query \<noteq> []),
      search_bool = (\<lambda>search_query. search_query \<noteq> []),
      obfuscate_value = example_obfuscate,
      int_of = ascii_int,
      str_of = ascii_str,
      strip = ascii_strip,
      lower = ascii_lower,
      uuid4_hex = ''0f8fad5bd9cb469fa16570867728950e'',
      writerow = example_writerow\<rparr>"

definition browser :: "querydict \<Rightarrow> request" where
  "browser querystring =
     \<lparr>GET = querystring, is_superuser = False, User_Agent = Some ''Mozilla/5.0''\<rparr>"

text \<open>A request with another \<open>User-Agent\<close> header, or with none.\<close>

definition downloader :: "string option \<Rightarrow> querydict \<Rightarrow> request" where
  "downloader agent querystring =
     \<lparr>GET = querystring, is_superuser = False, User_Agent = agent\<rparr>"

section \<open>Properties of the CSV encoder\<close>

lemma update_fresh: "k \<notin> fst ` set al \<Longrightarrow> AList.update k v al = al @ [(k, v)]"
  by (induction al) auto

lemma row_data_loop_distinct:
  "distinct (map fst rd @ map name (filter visible fs)) \<Longrightarrow> has_attrs fs row \<Longrightarrow>
   row_data_loop obf row fs rd = Inr (rd @ map (\<lambda>f. (name f, cell obf row f)) (filter visible fs))"
proof (induction fs arbitrary: rd)
  case Nil
  then show ?case by simp
next
  case (Cons f fs)
  have attrs: "has_attrs fs row"
    using Cons.prems(2) by (simp add: has_attrs_def)
  show ?case
  proof (cases "visible f")
    case False
    then have "row_data_loop obf row (f # fs) rd = row_data_loop obf row fs rd"
      by (auto simp: visible_def)
    moreover have "distinct (map fst rd @ map name (filter visible fs))"
      using Cons.prems(1) False by simp
    ultimately show ?thesis
      using Cons.IH attrs False by simp
  next
    case True
    then obtain v where v: "row (name f) = Some v"
      using Cons.prems(2) by (auto simp: has_attrs_def)
    have fresh: "name f \<notin> fst ` set rd"
      using Cons.prems(1) True by auto
    let ?rd = "rd @ [(name f, cell obf row f)]"
    have step: "row_data_loop obf row (f # fs) rd = row_data_loop obf row fs ?rd"
      using True v fresh by (simp add: visible_def getattr_def cell_def update_fresh)
    have "distinct (map fst ?rd @ map name (filter visible fs))"
      using Cons.prems(1) True by auto
    then have "row_data_loop obf row fs ?rd =
        Inr (?rd @ map (\<lambda>f. (name f, cell obf row f)) (filter visible fs))"
      using Cons.IH attrs by blast
    then show ?thesis
      using step True by simp
  qed
qed

lemma lookup_all_keys:
  "set hs \<subseteq> fst ` set al \<Longrightarrow> lookup_all al hs = Inr (map (\<lambda>h. the (map_of al h)) hs)"
proof (induction hs)
  case Nil
  then show ?case by simp
next
  case (Cons h hs)
  then obtain v where "map_of al h = Some v"
    by (metis (no_types, lifting) domD dom_map_of_conv_image_fst insert_subset list.simps(15))
  with Cons show ?case by simp
qed

lemma lookup_all_own_keys:
  assumes "distinct (map fst al)"
  shows "lookup_all al (map fst al) = Inr (map snd al)"
proof -
  have "map (\<lambda>h. the (map_of al h)) (map fst al) = map snd al"
    using assms by (auto simp: comp_def)
  then show ?thesis
    using lookup_all_keys [of "map fst al" al] by simp
qed

lemma csv_loop_rows:
  assumes "distinct (map name (filter visible flds))"
    and "\<forall>row \<in> set data. has_attrs flds row"
  shows "csv_loop obf flds (Some (map name (filter visible flds))) data =
    (map (\<lambda>row. Values (map (cell obf row) (filter visible flds))) data, None)"
  using assms(2)
proof (induction data)
  case Nil
  then show ?case by simp
next
  case (Cons row data)
  let ?rd = "map (\<lambda>f. (name f, cell obf row f)) (filter visible flds)"
  have rd: "row_data_loop obf row flds [] = Inr ?rd"
    using row_data_loop_distinct [of "[]" flds row obf] assms(1) Cons.prems by simp
  have keys: "map fst ?rd = map name (filter visible flds)"
    by (simp add: comp_def)
  have vals: "map snd ?rd = map (cell obf row) (filter visible flds)"
    by (simp add: comp_def)
  have "distinct (map fst ?rd)"
    using assms(1) by (simp only: keys)
  then have "lookup_all ?rd (map fst ?rd) = Inr (map snd ?rd)"
    by (rule lookup_all_own_keys)
  then have look: "lookup_all ?rd (map name (filter visible flds)) =
      Inr (map (cell obf row) (filter visible flds))"
    by (simp only: keys vals)
  show ?case
    using Cons rd look by simp
qed

lemma distinct_visible: "distinct (map name flds) \<Longrightarrow> distinct (map name (filter visible flds))"
  by (simp add: distinct_map_filter)

text \<open>
  Claim C1, as amended. For a field list whose names are pairwise distinct and a
  non-empty row source whose rows carry an attribute for every visible field, the
  encoder yields the header and then one data row per row, and raises nothing. The
  header lists the names of the visible fields in field-list order, so it holds neither
  \<open>search_data\<close> nor the name of a field that is not shown on the frontend. Every
  value of a field flagged \<open>obfuscate\<close> is the transform of the raw value. Every
  row's dict has its keys in the header's order, and the data row lists its values in
  that order.
\<close>

theorem queryset_to_csv_projection:
  assumes "data \<noteq> []"
    and "distinct (map name flds)"
    and "\<forall>row \<in> set data. has_attrs flds row"
  shows "queryset_to_csv obf data flds =
           (Header (map name (filter visible flds)) #
            map (\<lambda>row. Values (map (cell obf row) (filter visible flds))) data, None)
       \<and> (\<forall>f \<in> set flds. \<not> show_on_frontend f \<or> name f = ''search_data'' \<longrightarrow>
              name f \<notin> set (map name (filter visible flds)))
       \<and> (\<forall>row \<in> set data. \<forall>f \<in> set flds. obfuscate f \<longrightarrow>
              cell obf row f = obf (the (row (name f))))
       \<and> (\<forall>row \<in> set data.
              row_data_loop obf row flds [] =
                Inr (map (\<lambda>f. (name f, cell obf row f)) (filter visible flds)))"
proof -
  have dist: "distinct (map name (filter visible flds))"
    using assms(2) by (rule distinct_visible)
  let ?vis = "filter visible flds"
  have rd: "row_data_loop obf row flds [] = Inr (map (\<lambda>f. (name f, cell obf row f)) ?vis)"
    if "row \<in> set data" for row
    using row_data_loop_distinct [of "[]" flds row obf] dist assms(3) that by simp
  obtain row rows where data: "data = row # rows"
    using assms(1) by (cases data) auto
  have rest: "csv_loop obf flds (Some (map name ?vis)) rows =
      (map (\<lambda>row. Values (map (cell obf row) ?vis)) rows, None)"
    using csv_loop_rows [OF dist, of rows obf] assms(3) data by simp
  have keys: "map fst (map (\<lambda>f. (name f, cell obf row f)) ?vis) = map name ?vis"
    by (simp add: comp_def)
  have "lookup_all (map (\<lambda>f. (name f, cell obf row f)) ?vis)
          (map fst (map (\<lambda>f. (name f, cell obf row f)) ?vis)) =
        Inr (map snd (map (\<lambda>f. (name f, cell obf row f)) ?vis))"
    using dist by (intro lookup_all_own_keys) (simp only: keys)
  then have look: "lookup_all (map (\<lambda>f. (name f, cell obf row f)) ?vis) (map name ?vis) =
      Inr (map (cell obf row) ?vis)"
    by (simp add: comp_def)
  have out: "queryset_to_csv obf data flds =
      (Header (map name ?vis) # map (\<lambda>row. Values (map (cell obf row) ?vis)) data, None)"
    using rd [of row] rest look by (simp add: queryset_to_csv_def data comp_def)
  have hidden: "\<forall>f \<in> set flds. \<not> show_on_frontend f \<or> name f = ''search_data'' \<longrightarrow>
      name f \<notin> set (map name ?vis)"
  proof (intro ballI impI notI)
    fix f
    assume f: "f \<in> set flds" and skip: "\<not> show_on_frontend f \<or> name f = ''search_data''"
      and "name f \<in> set (map name ?vis)"
    then obtain g where g: "g \<in> set flds" "visible g" "name g = name f"
      by auto
    then have "g = f"
      using assms(2) f by (meson distinct_map inj_onD)
    with g(2) skip show False
      by (auto simp: visible_def)
  qed
  have obfs: "\<forall>row \<in> set data. \<forall>f \<in> set flds. obfuscate f \<longrightarrow>
      cell obf row f = obf (the (row (name f)))"
    by (simp add: cell_def)
  show ?thesis
    using out hidden obfs rd by blast
qed

theorem queryset_to_csv_projection_witness:
  "[example_row] \<noteq> [] \<and> distinct (map name example_fields)
   \<and> has_attrs example_fields example_row
   \<and> queryset_to_csv example_obfuscate [example_row] example_fields =
       ([Header [''city'', ''document''], Values [''SaoPaulo'', ''***45678900'']], None)"
proof -
  have h1: "[example_row] \<noteq> []" by simp
  have h2: "distinct (map name example_fields)"
    by (simp add: example_fields_def)
  have h3: "\<forall>row \<in> set [example_row]. has_attrs example_fields row"
    by (simp add: has_attrs_def example_fields_def example_row_def visible_def)
  have vis: "filter visible example_fields =
      [\<lparr>name = ''city'', show_on_frontend = True, obfuscate = False\<rparr>,
       \<lparr>name = ''document'', show_on_frontend = True, obfuscate = True\<rparr>]"
    by (simp add: example_fields_def visible_def)
  show ?thesis
    using h1 h2 h3 queryset_to_csv_projection [OF h1 h2 h3, of example_obfuscate]
    by (simp add: vis cell_def example_row_def example_obfuscate_def)
qed

text \<open>
  Claim C1 as stated, for every field list and every non-empty row source, fails. When
  two visible fields share a name, the later assignment to the dict replaces the
  earlier one: the raw value of a field flagged \<open>obfuscate\<close> is emitted. When a
  row lacks the attribute of a visible field, \<open>getattr\<close> raises before anything is
  yielded.
\<close>

theorem queryset_to_csv_duplicate_counterexample:
  "queryset_to_csv example_obfuscate [[''document'' \<mapsto> ''12345678900'']]
     [\<lparr>name = ''document'', show_on_frontend = True, obfuscate = True\<rparr>,
      \<lparr>name = ''document'', show_on_frontend = True, obfuscate = False\<rparr>]
   = ([Header [''document''], Values [''12345678900'']], None)
   \<and> queryset_to_csv example_obfuscate [Map.empty]
     [\<lparr>name = ''document'', show_on_frontend = True, obfuscate = True\<rparr>]
   = ([], Some AttributeError)"
  by (simp add: queryset_to_csv_def getattr_def)

section \<open>Properties of the view\<close>

subsection \<open>The control parameters\<close>

lemma delete_absent: "map_of al k = None \<Longrightarrow> AList.delete k al = al"
  by (induction al) (auto split: if_splits)

lemma pop_values_of: "pop querystring key dflt = (values_of querystring key dflt, AList.delete key querystring)"
  by (simp add: pop_def values_of_def delete_absent split: option.splits)

lemma values_of_delete:
  "k \<noteq> key \<Longrightarrow> values_of (AList.delete k querystring) key dflt = values_of querystring key dflt"
  by (simp add: values_of_def delete_conv)

lemma values_of_well_formed:
  "well_formed querystring \<Longrightarrow> values_of querystring key [dflt] \<noteq> []"
  by (auto simp: well_formed_def values_of_def list_all_iff split: option.splits
      dest!: map_of_SomeD)

text \<open>On a well-formed query dict the two subscripts \<open>[0]\<close> do not raise.\<close>

lemma reads_succeed:
  assumes "well_formed (GET request)"
  shows "(\<exists>ps. page_number env request = Inr ps)
    \<and> (\<exists>its. items_per_page env request = Inr its)"
  using values_of_well_formed [OF assms, of "''page''" "''1''"]
    values_of_well_formed [OF assms, of "''items''" "str_of env (ROWS_PER_PAGE (settings env))"]
  by (auto simp: page_number_def items_per_page_def first_stripped_or_def split: list.splits)

lemma table_view_parsed:
  assumes "page_number env request = Inr ps" and "int_of env ps = Some page"
    and "items_per_page env request = Inr its" and "int_of env its = Some n"
    and "parse_querystring env tbl (filter_params request) = (query, search_query, order_by)"
  shows "table_view env request slug dataset tbl =
    Inr (if format_values request = [''csv'']
         then csv_response env request slug dataset (table_fields tbl) query search_query
                (composed_query env tbl query search_query order_by)
         else page_response env slug dataset tbl (filter_params request) page (min n 1000)
                (composed_query env tbl query search_query order_by))"
  using assms
  by (simp add: table_view_def pop_values_of values_of_delete page_number_def
      items_per_page_def format_values_def filter_params_def Let_def)

lemma table_view_invalid_page:
  assumes "page_number env request = Inr ps" and "int_of env ps = None"
    and "items_per_page env request = Inr its"
  shows "table_view env request slug dataset tbl =
    Inr (Render ''404.html'' (Strings [(''message'', ''Invalid page number.'')]) 404)"
  using assms
  by (simp add: table_view_def pop_values_of values_of_delete page_number_def
      items_per_page_def Let_def)

lemma table_view_invalid_items:
  assumes "page_number env request = Inr ps" and "int_of env ps = Some page"
    and "items_per_page env request = Inr its" and "int_of env its = None"
  shows "table_view env request slug dataset tbl =
    Inr (Render ''404.html'' (Strings [(''message'', ''Invalid items per page.'')]) 404)"
  using assms
  by (simp add: table_view_def pop_values_of values_of_delete page_number_def
      items_per_page_def Let_def)

lemma dataset_detail_table:
  assumes "get_dataset env slug = Some dataset" and "tablename \<noteq> []"
    and "get_table env dataset tablename (is_superuser request) = Some tbl"
  shows "dataset_detail env request slug tablename = ([], table_view env request slug dataset tbl)"
  using assms by (simp add: dataset_detail_def)

subsection \<open>The export guards\<close>

lemma csv_response_rejected:
  assumes "\<not> (query_bool env query \<or> search_bool env search_query)
      \<or> User_Agent request = None \<or> User_Agent request = Some []
      \<or> (\<exists>ua. User_Agent request = Some ua \<and>
            (\<exists>agent \<in> set (BLOCKED_AGENTS (settings env)).
               sublist (lower env agent) (lower env ua)))"
  shows "csv_response env request slug dataset flds query search_query all_data =
    Render ''4xx.html''
      (Strings [(''html_code_snippet'', ''core/400-csv-without-filters.html''),
                (''download_url'', files_url dataset)]) 400"
  using assms by (auto simp: csv_response_def list_ex_iff split: option.splits)

lemma csv_response_passed:
  assumes "query_bool env query \<or> search_bool env search_query"
    and "User_Agent request = Some ua" and "ua \<noteq> []"
    and "\<forall>agent \<in> set (BLOCKED_AGENTS (settings env)).
           \<not> sublist (lower env agent) (lower env ua)"
  shows "csv_response env request slug dataset flds query search_query all_data =
    (if int (length all_data) > CSV_EXPORT_MAX_ROWS (settings env)
     then Render ''4xx.html''
            (Strings [(''message'', ''Max rows exceeded.''),
                      (''title_4xx'', ''Oops! Ocorreu um erro:'')]) 400
     else StreamingHttpResponse
            (map (writerow env) (fst (queryset_to_csv (obfuscate_value env) all_data flds)))
            (snd (queryset_to_csv (obfuscate_value env) all_data flds))
            ''text/csv;charset=UTF-8''
            (''attachment; filename='' @ [CHR 0x22] @ slug @ ''-'' @ uuid4_hex env @ ''.csv''
               @ [CHR 0x22]))"
  using assms by (auto simp: csv_response_def list_ex_iff Let_def split: prod.splits)

lemma export_path_csv_response:
  "export_path (csv_response env request slug dataset flds query search_query all_data)"
  by (simp add: csv_response_def Let_def split: prod.splits)

lemma not_paginated_csv_response:
  "\<not> paginated_page (csv_response env request slug dataset flds query search_query all_data)"
  by (simp add: csv_response_def Let_def split: prod.splits)

lemma paginated_page_response:
  "paginated_page (page_response env slug dataset tbl querystring page items all_data)"
  "\<not> export_path (page_response env slug dataset tbl querystring page items all_data)"
  by (simp_all add: page_response_def)

subsection \<open>The example installation, evaluated\<close>

lemma example_str_of: "ascii_str 50 = ''50''"
  by code_simp

lemma example_lower:
  "ascii_lower ''Wget'' = ''wget''"
  "ascii_lower ''curl'' = ''curl''"
  "ascii_lower ''Mozilla/5.0'' = ''mozilla/5.0''"
  "ascii_lower ''Wget/1.21'' = ''wget/1.21''"
  by code_simp+

lemmas example_defs =
  example_env_def example_settings_def example_dataset_def example_table_def
  example_hidden_table_def browser_def page_number_def items_per_page_def format_values_def
  filter_params_def values_of_def first_stripped_or_def ascii_strip_def ascii_space_def
  ascii_int_def example_parse_querystring_def example_composed_query_def example_rows_def
  example_row_def example_str_of example_lower sublist_code

lemma example_dataset: "get_dataset example_env ''covid19'' = Some example_dataset"
  by (simp add: example_env_def)

lemma example_table:
  "get_table example_env example_dataset ''caso'' (is_superuser (browser querystring)) =
     Some example_table"
  by (simp add: example_env_def)

text \<open>
  Claim C7. A request for an existing dataset with no table name is answered by a
  redirect to \<open>/dataset/<slug>/<name of the default table>\<close>, and by nothing else.
\<close>

theorem dataset_detail_redirect:
  assumes "get_dataset env slug = Some dataset"
  shows "dataset_detail env request slug [] =
           ([], Inr (Redirect (reverse_dataset_table_detail slug (default_table_name dataset))))
       \<and> reverse_dataset_table_detail slug (default_table_name dataset) =
           ''/dataset/'' @ slug @ ''/'' @ default_table_name dataset"
  using assms by (simp add: dataset_detail_def reverse_dataset_table_detail_def)

theorem dataset_detail_redirect_witness:
  "get_dataset example_env ''covid19'' = Some example_dataset
   \<and> dataset_detail example_env (browser []) ''covid19'' [] =
       ([], Inr (Redirect ''/dataset/covid19/caso''))"
  using dataset_detail_redirect [OF example_dataset, of "browser []"] example_dataset
  by (simp add: example_dataset_def reverse_dataset_table_detail_def)

text \<open>
  Claim C6. When the lookup of the named table with the caller's privilege fails, the
  response is the 404 page; \<open>log_blocked_request\<close> is called, with status 404, exactly
  when the lookup that allows hidden tables finds the table, and nothing is raised when
  that lookup fails too.
\<close>

theorem dataset_detail_table_not_found:
  assumes "get_dataset env slug = Some dataset" and "tablename \<noteq> []"
    and "get_table env dataset tablename (is_superuser request) = None"
  shows "dataset_detail env request slug tablename =
    (if get_table env dataset tablename True = None then [] else [404],
     Inr (Render ''404.html'' (Strings [(''message'', ''Table does not exist'')]) 404))"
  using assms by (simp add: dataset_detail_def split: option.splits)

theorem dataset_detail_table_not_found_witness:
  "get_dataset example_env ''covid19'' = Some example_dataset
   \<and> get_table example_env example_dataset ''interno'' (is_superuser (browser [])) = None
   \<and> get_table example_env example_dataset ''nada'' (is_superuser (browser [])) = None
   \<and> dataset_detail example_env (browser []) ''covid19'' ''interno'' =
       ([404], Inr (Render ''404.html'' (Strings [(''message'', ''Table does not exist'')]) 404))
   \<and> dataset_detail example_env (browser []) ''covid19'' ''nada'' =
       ([], Inr (Render ''404.html'' (Strings [(''message'', ''Table does not exist'')]) 404))"
proof -
  have hidden: "get_table example_env example_dataset ''interno'' (is_superuser (browser [])) = None"
    by (simp add: example_env_def browser_def)
  have absent: "get_table example_env example_dataset ''nada'' (is_superuser (browser [])) = None"
    by (simp add: example_env_def browser_def)
  have "get_table example_env example_dataset ''interno'' True \<noteq> None"
    and "get_table example_env example_dataset ''nada'' True = None"
    by (simp_all add: example_env_def)
  then show ?thesis
    using example_dataset hidden absent
      dataset_detail_table_not_found [OF example_dataset _ hidden]
      dataset_detail_table_not_found [OF example_dataset _ absent]
    by simp
qed

text \<open>
  Claim C5, as amended. On an existing dataset and a table that resolves, when the page
  number or the number of items as the view reads it (the first value of the parameter,
  stripped, and the default when the parameter is absent or blank) is not an integer,
  the response is the 404 page with the message of the first of the two that fails, and
  nothing is raised.
\<close>

theorem dataset_detail_invalid_number:
  assumes "get_dataset env slug = Some dataset" and "tablename \<noteq> []"
    and "get_table env dataset tablename (is_superuser request) = Some tbl"
    and "page_number env request = Inr ps" and "items_per_page env request = Inr its"
    and "int_of env ps = None \<or> int_of env its = None"
  shows "dataset_detail env request slug tablename =
    ([], Inr (Render ''404.html''
           (Strings [(''message'', if int_of env ps = None then ''Invalid page number.''
                                   else ''Invalid items per page.'')]) 404))"
proof (cases "int_of env ps")
  case None
  then show ?thesis
    using assms dataset_detail_table [OF assms(1-3)]
      table_view_invalid_page [OF assms(4) None assms(5)] by simp
next
  case (Some page)
  then have "int_of env its = None"
    using assms(6) by simp
  then show ?thesis
    using Some dataset_detail_table [OF assms(1-3)]
      table_view_invalid_items [OF assms(4) Some assms(5)] by simp
qed

theorem dataset_detail_invalid_number_witness:
  "get_dataset example_env ''covid19'' = Some example_dataset
   \<and> get_table example_env example_dataset ''caso''
        (is_superuser (browser [(''page'', [''abc'']), (''items'', [''1e3''])])) = Some example_table
   \<and> page_number example_env (browser [(''page'', [''abc'']), (''items'', [''1e3''])]) = Inr ''abc''
   \<and> items_per_page example_env (browser [(''page'', [''abc'']), (''items'', [''1e3''])]) = Inr ''1e3''
   \<and> int_of example_env ''abc'' = None
   \<and> dataset_detail example_env (browser [(''page'', [''abc'']), (''items'', [''1e3''])])
        ''covid19'' ''caso'' =
       ([], Inr (Render ''404.html'' (Strings [(''message'', ''Invalid page number.'')]) 404))"
proof -
  let ?r = "browser [(''page'', [''abc'']), (''items'', [''1e3''])]"
  have p: "page_number example_env ?r = Inr ''abc''"
    by (simp add: example_defs)
  have i: "items_per_page example_env ?r = Inr ''1e3''"
    by (simp add: example_defs)
  have n: "int_of example_env ''abc'' = None \<or> int_of example_env ''1e3'' = None"
    by (simp add: example_defs)
  have "int_of example_env ''abc'' = None"
    by (simp add: example_defs)
  then show ?thesis
    using example_dataset example_table [of "[(''page'', [''abc'']), (''items'', [''1e3''])]"] p i
      dataset_detail_invalid_number [OF example_dataset _ example_table p i n]
    by simp
qed

text \<open>
  Claim C5 as stated, for the parameter itself, fails: a blank value is not an integer,
  but the view puts the default in its place before it calls \<open>int\<close>. For
  \<open>?page=\<close> with a blank \<open>items\<close> neither parameter is an integer, and the response
  is the detail page with status 200, on page 1 with the default number of items.
\<close>

theorem dataset_detail_invalid_number_counterexample:
  "values_of (GET (browser [(''page'', ['''']), (''items'', [''  ''])])) ''page'' [''1''] = ['''']
   \<and> values_of (GET (browser [(''page'', ['''']), (''items'', [''  ''])])) ''items'' [''50'']
       = [''  '']
   \<and> int_of example_env '''' = None \<and> int_of example_env ''  '' = None
   \<and> dataset_detail example_env (browser [(''page'', ['''']), (''items'', [''  ''])])
        ''covid19'' ''caso'' =
       ([], Inr (page_response example_env ''covid19'' example_dataset example_table [] 1 50
              example_rows))
   \<and> status_code (page_response example_env ''covid19'' example_dataset example_table [] 1 50
        example_rows) = 200"
  by (simp add: dataset_detail_def table_view_def pop_def page_response_def example_defs)





text \<open>
  Claim C9, as amended. A request that gets as far as the choice of the response (the
  dataset exists, the table resolves, the page number and the number of items are
  integers) takes the CSV export path exactly when the list of values of \<open>format\<close>
  is \<open>["csv"]\<close>, and is answered by the paginated page exactly when it is not: so for
  \<open>format=csv&format=csv\<close> and for \<open>format=CSV\<close>.
\<close>

theorem dataset_detail_export_choice:
  assumes "get_dataset env slug = Some dataset" and "tablename \<noteq> []"
    and "get_table env dataset tablename (is_superuser request) = Some tbl"
    and "page_number env request = Inr ps" and "int_of env ps = Some page"
    and "items_per_page env request = Inr its" and "int_of env its = Some n"
  shows "\<exists>r. dataset_detail env request slug tablename = ([], Inr r)
       \<and> (export_path r \<longleftrightarrow> format_values request = [''csv''])
       \<and> (paginated_page r \<longleftrightarrow> format_values request \<noteq> [''csv''])"
proof -
  obtain query search_query order_by where
    parsed: "parse_querystring env tbl (filter_params request) = (query, search_query, order_by)"
    by (cases "parse_querystring env tbl (filter_params request)") auto
  show ?thesis
    using dataset_detail_table [OF assms(1-3)]
      table_view_parsed [OF assms(4-7) parsed, of slug dataset]
    by (simp add: export_path_csv_response not_paginated_csv_response paginated_page_response)
qed

theorem dataset_detail_export_choice_witness:
  "get_dataset example_env ''covid19'' = Some example_dataset
   \<and> get_table example_env example_dataset ''caso''
        (is_superuser (browser [(''format'', [''csv'', ''csv''])])) = Some example_table
   \<and> page_number example_env (browser [(''format'', [''csv'', ''csv''])]) = Inr ''1''
   \<and> int_of example_env ''1'' = Some 1
   \<and> items_per_page example_env (browser [(''format'', [''csv'', ''csv''])]) = Inr ''50''
   \<and> int_of example_env ''50'' = Some 50
   \<and> format_values (browser [(''format'', [''csv'', ''csv''])]) \<noteq> [''csv'']
   \<and> format_values (browser [(''format'', [''CSV''])]) \<noteq> [''csv'']
   \<and> (\<exists>r. dataset_detail example_env (browser [(''format'', [''csv'', ''csv''])])
             ''covid19'' ''caso'' = ([], Inr r) \<and> paginated_page r \<and> \<not> export_path r)
   \<and> (\<exists>r. dataset_detail example_env (browser [(''format'', [''CSV''])])
             ''covid19'' ''caso'' = ([], Inr r) \<and> paginated_page r \<and> \<not> export_path r)"
proof -
  let ?r = "browser [(''format'', [''csv'', ''csv''])]"
  let ?s = "browser [(''format'', [''CSV''])]"
  have p: "page_number example_env ?r = Inr ''1''" "page_number example_env ?s = Inr ''1''"
    by (simp_all add: example_defs)
  have pn: "int_of example_env ''1'' = Some 1"
    by (simp add: example_defs)
  have i: "items_per_page example_env ?r = Inr ''50''"
    "items_per_page example_env ?s = Inr ''50''"
    by (simp_all add: example_defs)
  have n: "int_of example_env ''50'' = Some 50"
    by (simp add: example_defs)
  have f: "format_values ?r \<noteq> [''csv'']" "format_values ?s \<noteq> [''csv'']"
    by (simp_all add: example_defs)
  show ?thesis
    using example_dataset example_table [of "[(''format'', [''csv'', ''csv''])]"] p pn i n f
      dataset_detail_export_choice [OF example_dataset _ example_table p(1) pn i(1) n]
      dataset_detail_export_choice [OF example_dataset _ example_table p(2) pn i(2) n]
    by auto
qed

text \<open>
  Claim C9 as stated, for every request, fails: the page number and the number of items
  are checked before the response is chosen, so a request whose list of values of
  \<open>format\<close> is \<open>["csv"]\<close> and whose page number is not an integer does not take the
  CSV export path; it is answered by the 404 page.
\<close>

theorem dataset_detail_export_choice_counterexample:
  "format_values (browser [(''format'', [''csv'']), (''city'', [''SaoPaulo'']), (''page'', [''x''])])
     = [''csv'']
   \<and> dataset_detail example_env
        (browser [(''format'', [''csv'']), (''city'', [''SaoPaulo'']), (''page'', [''x''])])
        ''covid19'' ''caso'' =
       ([], Inr (Render ''404.html'' (Strings [(''message'', ''Invalid page number.'')]) 404))
   \<and> \<not> export_path (Render ''404.html'' (Strings [(''message'', ''Invalid page number.'')]) 404
        :: string response)"
  by (simp add: dataset_detail_def table_view_def pop_def example_defs)

text \<open>
  Claim C3. For a CSV export request that reaches the export guards and passes the
  filter and user-agent guards, the response is the 400 page exactly when the row count
  is greater than \<open>CSV_EXPORT_MAX_ROWS\<close>; otherwise, so also at a count equal to the
  ceiling, it is the CSV stream.
\<close>

theorem csv_export_row_ceiling:
  assumes "get_dataset env slug = Some dataset" and "tablename \<noteq> []"
    and "get_table env dataset tablename (is_superuser request) = Some tbl"
    and "page_number env request = Inr ps" and "int_of env ps = Some page"
    and "items_per_page env request = Inr its" and "int_of env its = Some n"
    and "format_values request = [''csv'']"
    and "parse_querystring env tbl (filter_params request) = (query, search_query, order_by)"
    and "query_bool env query \<or> search_bool env search_query"
    and "User_Agent request = Some ua" and "ua \<noteq> []"
    and "\<forall>agent \<in> set (BLOCKED_AGENTS (settings env)).
           \<not> sublist (lower env agent) (lower env ua)"
    and "all_data = composed_query env tbl query search_query order_by"
  shows "\<exists>r. dataset_detail env request slug tablename = ([], Inr r)
       \<and> (status_code r = 400 \<longleftrightarrow> int (length all_data) > CSV_EXPORT_MAX_ROWS (settings env))
       \<and> r = (if int (length all_data) > CSV_EXPORT_MAX_ROWS (settings env)
              then Render ''4xx.html''
                     (Strings [(''message'', ''Max rows exceeded.''),
                               (''title_4xx'', ''Oops! Ocorreu um erro:'')]) 400
              else StreamingHttpResponse
                     (map (writerow env)
                        (fst (queryset_to_csv (obfuscate_value env) all_data (table_fields tbl))))
                     (snd (queryset_to_csv (obfuscate_value env) all_data (table_fields tbl)))
                     ''text/csv;charset=UTF-8''
                     (''attachment; filename='' @ [CHR 0x22] @ slug @ ''-'' @ uuid4_hex env
                        @ ''.csv'' @ [CHR 0x22]))"
  using dataset_detail_table [OF assms(1-3)]
    table_view_parsed [OF assms(4-7) assms(9), of slug dataset] assms(8,14)
    csv_response_passed [OF assms(10-13), of slug dataset "table_fields tbl" all_data]
  by simp

lemma example_ceiling: "CSV_EXPORT_MAX_ROWS (settings example_env) = 2"
  by (simp add: example_env_def example_settings_def)

lemma example_agents:
  "\<forall>agent \<in> set (BLOCKED_AGENTS (settings example_env)).
     \<not> sublist (lower example_env agent) (lower example_env ''Mozilla/5.0'')"
  by (simp add: example_env_def example_settings_def example_lower sublist_code)

theorem csv_export_row_ceiling_witness:
  "length (composed_query example_env example_table [(''city'', ''SaoPaulo'')] [] []) = 2
   \<and> CSV_EXPORT_MAX_ROWS (settings example_env) = 2
   \<and> dataset_detail example_env (browser [(''format'', [''csv'']), (''city'', [''SaoPaulo''])])
        ''covid19'' ''caso'' =
       ([], Inr (StreamingHttpResponse
          [''city,document'' @ [CHR 0x0D, CHR 0x0A],
           ''SaoPaulo,***45678900'' @ [CHR 0x0D, CHR 0x0A],
           ''SaoPaulo,***65432100'' @ [CHR 0x0D, CHR 0x0A]]
          None ''text/csv;charset=UTF-8''
          (''attachment; filename='' @ [CHR 0x22]
             @ ''covid19-0f8fad5bd9cb469fa16570867728950e.csv'' @ [CHR 0x22])))
   \<and> length (composed_query example_env example_table [] ''sao'' []) = 3
   \<and> dataset_detail example_env (browser [(''format'', [''csv'']), (''search'', [''sao''])])
        ''covid19'' ''caso'' =
       ([], Inr (Render ''4xx.html''
          (Strings [(''message'', ''Max rows exceeded.''),
                    (''title_4xx'', ''Oops! Ocorreu um erro:'')]) 400))"
proof -
  let ?a = "browser [(''format'', [''csv'']), (''city'', [''SaoPaulo''])]"
  let ?b = "browser [(''format'', [''csv'']), (''search'', [''sao''])]"
  have p: "page_number example_env ?a = Inr ''1''" "page_number example_env ?b = Inr ''1''"
    by (simp_all add: example_defs)
  have pn: "int_of example_env ''1'' = Some 1"
    by (simp add: example_defs)
  have i: "items_per_page example_env ?a = Inr ''50''"
    "items_per_page example_env ?b = Inr ''50''"
    by (simp_all add: example_defs)
  have n: "int_of example_env ''50'' = Some 50"
    by (simp add: example_defs)
  have f: "format_values ?a = [''csv'']" "format_values ?b = [''csv'']"
    by (simp_all add: example_defs)
  have qa: "parse_querystring example_env example_table (filter_params ?a) =
      ([(''city'', ''SaoPaulo'')], [], [])"
    by (simp add: example_defs)
  have qb: "parse_querystring example_env example_table (filter_params ?b) = ([], ''sao'', [])"
    by (simp add: example_defs)
  have ta: "query_bool example_env [(''city'', ''SaoPaulo'')] \<or> search_bool example_env []"
    by (simp add: example_env_def)
  have tb: "query_bool example_env [] \<or> search_bool example_env ''sao''"
    by (simp add: example_env_def)
  have ua: "User_Agent ?a = Some ''Mozilla/5.0''" "User_Agent ?b = Some ''Mozilla/5.0''"
    by (simp_all add: browser_def)
  have ne: "''Mozilla/5.0'' \<noteq> []"
    by simp
  have da: "composed_query example_env example_table [(''city'', ''SaoPaulo'')] [] [] =
      [example_row,
       [''city'' \<mapsto> ''SaoPaulo'', ''document'' \<mapsto> ''98765432100'',
        ''search_data'' \<mapsto> ''saopaulo'']]"
    by (simp add: example_env_def example_composed_query_def example_rows_def example_row_def)
  have db: "composed_query example_env example_table [] ''sao'' [] = example_rows"
    by (simp add: example_env_def example_composed_query_def)
  have csv: "queryset_to_csv example_obfuscate
      [example_row,
       [''city'' \<mapsto> ''SaoPaulo'', ''document'' \<mapsto> ''98765432100'',
        ''search_data'' \<mapsto> ''saopaulo'']] example_fields =
      ([Header [''city'', ''document''], Values [''SaoPaulo'', ''***45678900''],
        Values [''SaoPaulo'', ''***65432100'']], None)"
    by (simp add: queryset_to_csv_def example_fields_def example_row_def getattr_def
        example_obfuscate_def)
  have more: "obfuscate_value example_env = example_obfuscate"
    "writerow example_env = example_writerow"
    "uuid4_hex example_env = ''0f8fad5bd9cb469fa16570867728950e''"
    "table_fields example_table = example_fields"
    by (simp_all add: example_env_def example_table_def)
  have la: "length (composed_query example_env example_table [(''city'', ''SaoPaulo'')] [] []) = 2"
    by (simp add: da)
  have lb: "length (composed_query example_env example_table [] ''sao'' []) = 3"
    by (simp add: db example_rows_def)
  from csv_export_row_ceiling [OF example_dataset _ example_table p(1) pn i(1) n f(1) qa ta
      ua(1) ne example_agents refl]
  have ra: "dataset_detail example_env ?a ''covid19'' ''caso'' =
       ([], Inr (StreamingHttpResponse
          [''city,document'' @ [CHR 0x0D, CHR 0x0A],
           ''SaoPaulo,***45678900'' @ [CHR 0x0D, CHR 0x0A],
           ''SaoPaulo,***65432100'' @ [CHR 0x0D, CHR 0x0A]]
          None ''text/csv;charset=UTF-8''
          (''attachment; filename='' @ [CHR 0x22]
             @ ''covid19-0f8fad5bd9cb469fa16570867728950e.csv'' @ [CHR 0x22])))"
    by (simp add: la example_ceiling more da csv example_writerow_def)
  from csv_export_row_ceiling [OF example_dataset _ example_table p(2) pn i(2) n f(2) qb tb
      ua(2) ne example_agents refl]
  have rb: "dataset_detail example_env ?b ''covid19'' ''caso'' =
       ([], Inr (Render ''4xx.html''
          (Strings [(''message'', ''Max rows exceeded.''),
                    (''title_4xx'', ''Oops! Ocorreu um erro:'')]) 400))"
    by (simp add: lb example_ceiling)
  show ?thesis
    using la lb example_ceiling ra rb by simp
qed

text \<open>
  Claim C2, as amended. For a CSV export request on an existing dataset and a table that
  resolves, whose page number and number of items are integers, when the parsed query
  string yields neither a filter expression nor a search expression, the response is
  the error page with status 400, whatever the row source holds, and no CSV is streamed.
\<close>

theorem csv_export_without_filters:
  assumes "get_dataset env slug = Some dataset" and "tablename \<noteq> []"
    and "get_table env dataset tablename (is_superuser request) = Some tbl"
    and "page_number env request = Inr ps" and "int_of env ps = Some page"
    and "items_per_page env request = Inr its" and "int_of env its = Some n"
    and "format_values request = [''csv'']"
    and "parse_querystring env tbl (filter_params request) = (query, search_query, order_by)"
    and "\<not> query_bool env query" and "\<not> search_bool env search_query"
  shows "dataset_detail env request slug tablename =
    ([], Inr (Render ''4xx.html''
           (Strings [(''html_code_snippet'', ''core/400-csv-without-filters.html''),
                     (''download_url'', files_url dataset)]) 400))"
proof -
  have "csv_response env request slug dataset (table_fields tbl) query search_query
      (composed_query env tbl query search_query order_by) =
    Render ''4xx.html''
      (Strings [(''html_code_snippet'', ''core/400-csv-without-filters.html''),
                (''download_url'', files_url dataset)]) 400"
    using assms(10,11) by (intro csv_response_rejected) simp
  then show ?thesis
    using dataset_detail_table [OF assms(1-3)]
      table_view_parsed [OF assms(4-7) assms(9), of slug dataset] assms(8)
    by simp
qed

theorem csv_export_without_filters_witness:
  "format_values (browser [(''format'', [''csv''])]) = [''csv'']
   \<and> parse_querystring example_env example_table (filter_params (browser [(''format'', [''csv''])]))
       = ([], [], [])
   \<and> \<not> query_bool example_env [] \<and> \<not> search_bool example_env []
   \<and> dataset_detail example_env (browser [(''format'', [''csv''])]) ''covid19'' ''caso'' =
       ([], Inr (Render ''4xx.html''
          (Strings [(''html_code_snippet'', ''core/400-csv-without-filters.html''),
                    (''download_url'', ''/dataset/covid19/files/'')]) 400))"
proof -
  let ?r = "browser [(''format'', [''csv''])]"
  have p: "page_number example_env ?r = Inr ''1''"
    by (simp add: example_defs)
  have pn: "int_of example_env ''1'' = Some 1"
    by (simp add: example_defs)
  have i: "items_per_page example_env ?r = Inr ''50''"
    by (simp add: example_defs)
  have n: "int_of example_env ''50'' = Some 50"
    by (simp add: example_defs)
  have f: "format_values ?r = [''csv'']"
    by (simp add: example_defs)
  have q: "parse_querystring example_env example_table (filter_params ?r) = ([], [], [])"
    by (simp add: example_defs)
  have nq: "\<not> query_bool example_env []" and ns: "\<not> search_bool example_env []"
    by (simp_all add: example_env_def)
  show ?thesis
    using f q nq ns
      csv_export_without_filters [OF example_dataset _ example_table p pn i n f q nq ns]
    by (simp add: example_dataset_def)
qed

text \<open>
  Claim C2 as stated fails: the page number is checked before the export guards, so a
  CSV export request without any filter whose page number is not an integer is answered
  by the 404 page, not by the 400 page.
\<close>

theorem csv_export_without_filters_counterexample:
  "get_dataset example_env ''covid19'' = Some example_dataset
   \<and> get_table example_env example_dataset ''caso'' False = Some example_table
   \<and> format_values (browser [(''format'', [''csv'']), (''page'', [''abc''])]) = [''csv'']
   \<and> parse_querystring example_env example_table
        (filter_params (browser [(''format'', [''csv'']), (''page'', [''abc''])])) = ([], [], [])
   \<and> \<not> query_bool example_env [] \<and> \<not> search_bool example_env []
   \<and> dataset_detail example_env (browser [(''format'', [''csv'']), (''page'', [''abc''])])
        ''covid19'' ''caso'' =
       ([], Inr (Render ''404.html'' (Strings [(''message'', ''Invalid page number.'')]) 404))"
  by (simp add: dataset_detail_def table_view_def pop_def example_defs)

text \<open>
  Claim C8, as amended. For a CSV export request on an existing dataset and a table that
  resolves, whose page number and number of items are integers, when the
  \<open>User-Agent\<close> header is absent or empty, or its lower-cased value contains the
  lower-cased form of a blocked agent, the response is the error page with status 400
  and no CSV is streamed.
\<close>

theorem csv_export_blocked_agent:
  assumes "get_dataset env slug = Some dataset" and "tablename \<noteq> []"
    and "get_table env dataset tablename (is_superuser request) = Some tbl"
    and "page_number env request = Inr ps" and "int_of env ps = Some page"
    and "items_per_page env request = Inr its" and "int_of env its = Some n"
    and "format_values request = [''csv'']"
    and "User_Agent request = None \<or> User_Agent request = Some []
      \<or> (\<exists>ua. User_Agent request = Some ua \<and>
            (\<exists>agent \<in> set (BLOCKED_AGENTS (settings env)).
               sublist (lower env agent) (lower env ua)))"
  shows "dataset_detail env request slug tablename =
    ([], Inr (Render ''4xx.html''
           (Strings [(''html_code_snippet'', ''core/400-csv-without-filters.html''),
                     (''download_url'', files_url dataset)]) 400))"
proof -
  obtain query search_query order_by where
    parsed: "parse_querystring env tbl (filter_params request) = (query, search_query, order_by)"
    by (cases "parse_querystring env tbl (filter_params request)") auto
  have "csv_response env request slug dataset (table_fields tbl) query search_query
      (composed_query env tbl query search_query order_by) =
    Render ''4xx.html''
      (Strings [(''html_code_snippet'', ''core/400-csv-without-filters.html''),
                (''download_url'', files_url dataset)]) 400"
    using assms(9) by (intro csv_response_rejected) blast
  then show ?thesis
    using dataset_detail_table [OF assms(1-3)]
      table_view_parsed [OF assms(4-7) parsed, of slug dataset] assms(8)
    by simp
qed

theorem csv_export_blocked_agent_witness:
  "sublist (lower example_env ''Wget'') (lower example_env ''Wget/1.21'')
   \<and> dataset_detail example_env
        (downloader (Some ''Wget/1.21'') [(''format'', [''csv'']), (''city'', [''SaoPaulo''])])
        ''covid19'' ''caso'' =
       ([], Inr (Render ''4xx.html''
          (Strings [(''html_code_snippet'', ''core/400-csv-without-filters.html''),
                    (''download_url'', ''/dataset/covid19/files/'')]) 400))
   \<and> dataset_detail example_env
        (downloader None [(''format'', [''csv'']), (''city'', [''SaoPaulo''])])
        ''covid19'' ''caso'' =
       ([], Inr (Render ''4xx.html''
          (Strings [(''html_code_snippet'', ''core/400-csv-without-filters.html''),
                    (''download_url'', ''/dataset/covid19/files/'')]) 400))"
proof -
  let ?q = "[(''format'', [''csv'']), (''city'', [''SaoPaulo''])]"
  let ?a = "downloader (Some ''Wget/1.21'') ?q"
  let ?b = "downloader None ?q"
  have t: "get_table example_env example_dataset ''caso'' (is_superuser ?a) = Some example_table"
    "get_table example_env example_dataset ''caso'' (is_superuser ?b) = Some example_table"
    by (simp_all add: example_env_def)
  have p: "page_number example_env ?a = Inr ''1''" "page_number example_env ?b = Inr ''1''"
    by (simp_all add: example_defs downloader_def)
  have pn: "int_of example_env ''1'' = Some 1"
    by (simp add: example_defs)
  have i: "items_per_page example_env ?a = Inr ''50''"
    "items_per_page example_env ?b = Inr ''50''"
    by (simp_all add: example_defs downloader_def)
  have n: "int_of example_env ''50'' = Some 50"
    by (simp add: example_defs)
  have f: "format_values ?a = [''csv'']" "format_values ?b = [''csv'']"
    by (simp_all add: example_defs downloader_def)
  have sub: "sublist (lower example_env ''Wget'') (lower example_env ''Wget/1.21'')"
    by (simp add: example_env_def example_lower sublist_code)
  have ua: "User_Agent ?a = None \<or> User_Agent ?a = Some []
      \<or> (\<exists>ua. User_Agent ?a = Some ua \<and>
            (\<exists>agent \<in> set (BLOCKED_AGENTS (settings example_env)).
               sublist (lower example_env agent) (lower example_env ua)))"
    using sub by (simp add: downloader_def example_env_def example_settings_def)
  have ub: "User_Agent ?b = None \<or> User_Agent ?b = Some []
      \<or> (\<exists>ua. User_Agent ?b = Some ua \<and>
            (\<exists>agent \<in> set (BLOCKED_AGENTS (settings example_env)).
               sublist (lower example_env agent) (lower example_env ua)))"
    by (simp add: downloader_def)
  show ?thesis
    using sub
      csv_export_blocked_agent [OF example_dataset _ t(1) p(1) pn i(1) n f(1) ua]
      csv_export_blocked_agent [OF example_dataset _ t(2) p(2) pn i(2) n f(2) ub]
    by (simp add: example_dataset_def)
qed

text \<open>
  Claim C8 as stated fails: the number of items is checked before the export guards, so
  a CSV export request from a blocked agent whose number of items is not an integer is
  answered by the 404 page, not by the 400 page.
\<close>

theorem csv_export_blocked_agent_counterexample:
  "sublist (lower example_env ''Wget'') (lower example_env ''Wget/1.21'')
   \<and> format_values (downloader (Some ''Wget/1.21'')
        [(''format'', [''csv'']), (''city'', [''SaoPaulo'']), (''items'', [''many''])]) = [''csv'']
   \<and> dataset_detail example_env
        (downloader (Some ''Wget/1.21'')
           [(''format'', [''csv'']), (''city'', [''SaoPaulo'']), (''items'', [''many''])])
        ''covid19'' ''caso'' =
       ([], Inr (Render ''404.html'' (Strings [(''message'', ''Invalid items per page.'')]) 404))"
  by (simp add: dataset_detail_def table_view_def pop_def downloader_def example_defs)

text \<open>
  Claim C10. On a row source without rows the encoder yields nothing, not even a
  header; so a CSV export that passes the guards and whose row source is empty streams
  an empty body.
\<close>

theorem csv_export_empty:
  "queryset_to_csv obf [] flds = ([], None)
   \<and> (get_dataset env slug = Some dataset \<and> tablename \<noteq> []
      \<and> get_table env dataset tablename (is_superuser request) = Some tbl
      \<and> page_number env request = Inr ps \<and> int_of env ps = Some page
      \<and> items_per_page env request = Inr its \<and> int_of env its = Some n
      \<and> format_values request = [''csv'']
      \<and> parse_querystring env tbl (filter_params request) = (query, search_query, order_by)
      \<and> (query_bool env query \<or> search_bool env search_query)
      \<and> User_Agent request = Some ua \<and> ua \<noteq> []
      \<and> (\<forall>agent \<in> set (BLOCKED_AGENTS (settings env)).
            \<not> sublist (lower env agent) (lower env ua))
      \<and> composed_query env tbl query search_query order_by = []
      \<and> 0 \<le> CSV_EXPORT_MAX_ROWS (settings env)
      \<longrightarrow> dataset_detail env request slug tablename =
            ([], Inr (StreamingHttpResponse [] None ''text/csv;charset=UTF-8''
                   (''attachment; filename='' @ [CHR 0x22] @ slug @ ''-'' @ uuid4_hex env
                      @ ''.csv'' @ [CHR 0x22]))))"
proof (intro conjI impI)
  show "queryset_to_csv obf [] flds = ([], None)"
    by (simp add: queryset_to_csv_def)
next
  assume a: "get_dataset env slug = Some dataset \<and> tablename \<noteq> []
      \<and> get_table env dataset tablename (is_superuser request) = Some tbl
      \<and> page_number env request = Inr ps \<and> int_of env ps = Some page
      \<and> items_per_page env request = Inr its \<and> int_of env its = Some n
      \<and> format_values request = [''csv'']
      \<and> parse_querystring env tbl (filter_params request) = (query, search_query, order_by)
      \<and> (query_bool env query \<or> search_bool env search_query)
      \<and> User_Agent request = Some ua \<and> ua \<noteq> []
      \<and> (\<forall>agent \<in> set (BLOCKED_AGENTS (settings env)).
            \<not> sublist (lower env agent) (lower env ua))
      \<and> composed_query env tbl query search_query order_by = []
      \<and> 0 \<le> CSV_EXPORT_MAX_ROWS (settings env)"
  then have view: "dataset_detail env request slug tablename =
      ([], table_view env request slug dataset tbl)"
    by (intro dataset_detail_table) simp_all
  have tv: "table_view env request slug dataset tbl =
      Inr (csv_response env request slug dataset (table_fields tbl) query search_query [])"
    using a table_view_parsed [of env request ps page its n tbl query search_query order_by
        slug dataset]
    by simp
  have "csv_response env request slug dataset (table_fields tbl) query search_query [] =
      StreamingHttpResponse [] None ''text/csv;charset=UTF-8''
        (''attachment; filename='' @ [CHR 0x22] @ slug @ ''-'' @ uuid4_hex env
           @ ''.csv'' @ [CHR 0x22])"
    using a csv_response_passed [of env query search_query request ua slug dataset
        "table_fields tbl" "[]"]
    by (simp add: queryset_to_csv_def)
  with view tv show "dataset_detail env request slug tablename =
      ([], Inr (StreamingHttpResponse [] None ''text/csv;charset=UTF-8''
             (''attachment; filename='' @ [CHR 0x22] @ slug @ ''-'' @ uuid4_hex env
                @ ''.csv'' @ [CHR 0x22])))"
    by simp
qed

theorem csv_export_empty_witness:
  "composed_query example_env example_table [(''city'', ''Natal'')] [] [] = []
   \<and> 0 \<le> CSV_EXPORT_MAX_ROWS (settings example_env)
   \<and> dataset_detail example_env (browser [(''format'', [''csv'']), (''city'', [''Natal''])])
        ''covid19'' ''caso'' =
       ([], Inr (StreamingHttpResponse [] None ''text/csv;charset=UTF-8''
          (''attachment; filename='' @ [CHR 0x22]
             @ ''covid19-0f8fad5bd9cb469fa16570867728950e.csv'' @ [CHR 0x22])))"
proof -
  let ?r = "browser [(''format'', [''csv'']), (''city'', [''Natal''])]"
  have p: "page_number example_env ?r = Inr ''1''"
    by (simp add: example_defs)
  have pn: "int_of example_env ''1'' = Some 1"
    by (simp add: example_defs)
  have i: "items_per_page example_env ?r = Inr ''50''"
    by (simp add: example_defs)
  have n: "int_of example_env ''50'' = Some 50"
    by (simp add: example_defs)
  have f: "format_values ?r = [''csv'']"
    by (simp add: example_defs)
  have q: "parse_querystring example_env example_table (filter_params ?r) =
      ([(''city'', ''Natal'')], [], [])"
    by (simp add: example_defs)
  have t: "query_bool example_env [(''city'', ''Natal'')] \<or> search_bool example_env []"
    by (simp add: example_env_def)
  have ua: "User_Agent ?r = Some ''Mozilla/5.0''"
    by (simp add: browser_def)
  have d: "composed_query example_env example_table [(''city'', ''Natal'')] [] [] = []"
    by (simp add: example_env_def example_composed_query_def example_rows_def example_row_def)
  have c: "0 \<le> CSV_EXPORT_MAX_ROWS (settings example_env)"
    by (simp add: example_ceiling)
  have u: "uuid4_hex example_env = ''0f8fad5bd9cb469fa16570867728950e''"
    by (simp add: example_env_def)
  show ?thesis
    using d c example_dataset example_table [of "[(''format'', [''csv'']), (''city'', [''Natal''])]"]
      p pn i n f q t ua example_agents u
      csv_export_empty [of example_obfuscate example_fields example_env "''covid19''" example_dataset "''caso''"
        ?r example_table "''1''" 1 "''50''" 50 "[(''city'', ''Natal'')]" "[]" "[]" "''Mozilla/5.0''"]
    by auto
qed

end
